theory Spec2Isabelle
  imports Main "HOL-Library.Word"
begin

unbundle bit_operations_syntax

section \<open>Machine types\<close>

text \<open>
  The driver is built for a 32-bit ARM core without LPAE: \<^verbatim>\<open>unsigned\<close>,
  \<^verbatim>\<open>uintptr_t\<close>, \<^verbatim>\<open>phys_addr_t\<close>, \<^verbatim>\<open>resource_size_t\<close> and every
  pointer are 32 bits wide. Pointers are modelled by their address, pointer arithmetic on
  \<^verbatim>\<open>void *\<close> counts bytes and wraps as the word addition does, and the null pointer is
  the address 0.
\<close>

type_synonym u32 = "32 word"
type_synonym phys_addr_t = "32 word"
type_synonym resource_size_t = "32 word"
type_synonym ptr = "32 word"

abbreviation NULL :: ptr where
  "NULL \<equiv> 0"

section \<open>Data model\<close>

text \<open>
  \<^verbatim>\<open>struct smem_area\<close>: one entry of the array \<^verbatim>\<open>smem_areas\<close>. The fields are the
  three that \<^verbatim>\<open>smem.c\<close> reads. The global pointer \<^verbatim>\<open>smem_areas\<close> together with
  the count \<^verbatim>\<open>num_smem_areas\<close> is an \<open>smem_area list option\<close>: \<open>None\<close> is the null
  pointer of early boot, \<open>Some as\<close> the array of \<open>length as\<close> entries.
\<close>

record smem_area =
  phys_addr :: phys_addr_t
  size_area :: resource_size_t
  virt_addr :: ptr

text \<open>
  Modelled from the spec: \<^verbatim>\<open>struct smem_heap_info\<close>, \<^verbatim>\<open>struct smem_heap_entry\<close> and
  \<^verbatim>\<open>struct smem_shared\<close> are declared in \<^verbatim>\<open>smem_private.h\<close>, a header that is
  not available. The records hold the fields that \<^verbatim>\<open>smem.c\<close> accesses (the
  Heap Header and the Heap Item Slot of the data model), each an \<^verbatim>\<open>unsigned\<close>. The
  table \<^verbatim>\<open>heap_toc\<close> is an array of \<^verbatim>\<open>SMEM_NUM_ITEMS\<close> slots, here a list; see
  \<open>toc_sized\<close>.
\<close>

record smem_heap_info =
  initialized :: u32
  free_offset :: u32
  heap_remaining :: u32

record smem_heap_entry =
  allocated :: u32
  offset :: u32
  size_entry :: u32
  reserved :: u32

record smem_shared =
  heap_info :: smem_heap_info
  heap_toc :: "smem_heap_entry list"

text \<open>
  The constants that \<^verbatim>\<open>smem.c\<close> takes from platform headers that are not available.
  They are parameters of every operation.
\<close>

record platform =
  MSM_SHARED_RAM_BASE :: ptr
  MSM_SHARED_RAM_SIZE :: resource_size_t
  msm_shared_ram_phys :: phys_addr_t
  SMEM_NUM_ITEMS :: u32
  SMEM_FIXED_ITEM_LAST :: u32
  BASE_ADDR_MASK :: u32

definition toc_sized :: "platform \<Rightarrow> smem_shared \<Rightarrow> bool" where
  "toc_sized P shared = (length (heap_toc shared) = unat (SMEM_NUM_ITEMS P))"

section \<open>Macros\<close>

text \<open>
  \<^verbatim>\<open>OVERFLOW_ADD_UNSIGNED(type, a, b)\<close> is \<^verbatim>\<open>((type)~0 - (a)) < (b)\<close>; both uses
  are at a 32-bit type.
\<close>

definition OVERFLOW_ADD_UNSIGNED :: "u32 \<Rightarrow> u32 \<Rightarrow> bool" where
  "OVERFLOW_ADD_UNSIGNED a b = (NOT 0 - a < b)"

text \<open>
  Modelled from the spec: \<^verbatim>\<open>ALIGN\<close> comes from \<^verbatim>\<open>linux/kernel.h\<close>, a header that
  is not available. It rounds an \<^verbatim>\<open>unsigned\<close> up to the next multiple of
  the power of two \<open>a\<close>, as \<^verbatim>\<open>(x + (a - 1)) & ~(a - 1)\<close> in 32-bit arithmetic.
\<close>

definition ALIGN :: "u32 \<Rightarrow> u32 \<Rightarrow> u32" where
  "ALIGN x a = (x + (a - 1)) AND NOT (a - 1)"

section \<open>Address translation\<close>

text \<open>
  The \<^verbatim>\<open>for\<close> loop of \<^verbatim>\<open>smem_phys_to_virt\<close> over \<^verbatim>\<open>smem_areas[0 .. num_smem_areas)\<close>:
  an area is skipped (\<^verbatim>\<open>continue\<close>) when the span does not fit, the first one that
  fits decides the result, and the loop running out gives \<^verbatim>\<open>NULL\<close>.
\<close>

fun smem_phys_to_virt_areas :: "smem_area list \<Rightarrow> phys_addr_t \<Rightarrow> u32 \<Rightarrow> ptr" where
  "smem_phys_to_virt_areas [] base offs = NULL"
| "smem_phys_to_virt_areas (a # as) base offs =
     (if base < phys_addr a \<or> base + offs \<ge> phys_addr a + size_area a
      then smem_phys_to_virt_areas as base offs
      else if OVERFLOW_ADD_UNSIGNED (virt_addr a) offs then NULL
      else virt_addr a + offs)"

definition smem_phys_to_virt ::
  "platform \<Rightarrow> smem_area list option \<Rightarrow> phys_addr_t \<Rightarrow> u32 \<Rightarrow> ptr" where
  "smem_phys_to_virt P smem_areas base offs =
     (if OVERFLOW_ADD_UNSIGNED base offs then NULL
      else case smem_areas of
        None \<Rightarrow>
          if base \<ge> msm_shared_ram_phys P
             \<and> base + offs < msm_shared_ram_phys P + MSM_SHARED_RAM_SIZE P
          then (if OVERFLOW_ADD_UNSIGNED (MSM_SHARED_RAM_BASE P) offs then NULL
                else MSM_SHARED_RAM_BASE P + offs)
          else NULL
      | Some areas \<Rightarrow> smem_phys_to_virt_areas areas base offs)"

text \<open>
  The loop of \<^verbatim>\<open>smem_virt_to_phys\<close>: \<^verbatim>\<open>phys_addr\<close> starts at 0, the first area
  whose virtual span holds the address sets it and leaves the loop (\<^verbatim>\<open>break\<close>).
  \<^verbatim>\<open>vend\<close> is \<^verbatim>\<open>virt_addr + size\<close> in pointer arithmetic.
\<close>

fun smem_virt_to_phys_areas :: "smem_area list \<Rightarrow> ptr \<Rightarrow> phys_addr_t" where
  "smem_virt_to_phys_areas [] smem_address = 0"
| "smem_virt_to_phys_areas (a # as) smem_address =
     (let vend = virt_addr a + size_area a in
      if smem_address \<ge> virt_addr a \<and> smem_address < vend
      then (smem_address - virt_addr a) + phys_addr a
      else smem_virt_to_phys_areas as smem_address)"

definition smem_virt_to_phys :: "smem_area list option \<Rightarrow> ptr \<Rightarrow> phys_addr_t" where
  "smem_virt_to_phys smem_areas smem_address =
     (case smem_areas of
        None \<Rightarrow> 0
      | Some areas \<Rightarrow> smem_virt_to_phys_areas areas smem_address)"

section \<open>The heap and its table of contents\<close>

text \<open>
  Every operation takes the shared structure at \<^verbatim>\<open>MSM_SHARED_RAM_BASE\<close> and returns
  it as the call leaves it. The remote spinlock and the barriers order the accesses of
  several processors; one call taken alone reads and writes the same values with or
  without them, so they do not appear.

  \<^verbatim>\<open>smem_get_entry\<close> writes through its \<^verbatim>\<open>size\<close> pointer: \<open>sz\<close> is what the cell
  holds before the call, the second component of the result what it holds after.
\<close>

definition smem_get_entry ::
  "platform \<Rightarrow> smem_area list option \<Rightarrow> smem_shared \<Rightarrow> u32 \<Rightarrow> u32
     \<Rightarrow> ptr \<times> u32 \<times> smem_shared" where
  "smem_get_entry P smem_areas shared ident sz =
     (let toc = heap_toc shared in
      if ident \<ge> SMEM_NUM_ITEMS P then (NULL, sz, shared)
      else if allocated (toc ! unat ident) \<noteq> 0 then
        (let phys_base = reserved (toc ! unat ident) AND BASE_ADDR_MASK P;
             phys_base' = (if phys_base = 0 then msm_shared_ram_phys P else phys_base)
         in (smem_phys_to_virt P smem_areas phys_base' (offset (toc ! unat ident)),
             size_entry (toc ! unat ident), shared))
      else (NULL, 0, shared))"

text \<open>
  The local \<^verbatim>\<open>size\<close> of \<^verbatim>\<open>smem_find\<close> is not initialised in the source; it is read
  only after \<^verbatim>\<open>smem_get_entry\<close> returned a non-null pointer, which it does only on the
  branch that has written the cell. The model starts the cell at 0.
\<close>

definition smem_find ::
  "platform \<Rightarrow> smem_area list option \<Rightarrow> smem_shared \<Rightarrow> u32 \<Rightarrow> u32 \<Rightarrow> ptr \<times> smem_shared" where
  "smem_find P smem_areas shared ident size_in =
     (case smem_get_entry P smem_areas shared ident 0 of
        (p, sz, shared') \<Rightarrow>
          if p = NULL then (NULL, shared')
          else if ALIGN size_in 8 \<noteq> sz then (NULL, shared')
          else (p, shared'))"

definition smem_alloc ::
  "platform \<Rightarrow> smem_area list option \<Rightarrow> smem_shared \<Rightarrow> u32 \<Rightarrow> u32 \<Rightarrow> ptr \<times> smem_shared" where
  "smem_alloc P smem_areas shared ident size_in = smem_find P smem_areas shared ident size_in"

definition smem_alloc2 :: "platform \<Rightarrow> smem_shared \<Rightarrow> u32 \<Rightarrow> u32 \<Rightarrow> ptr \<times> smem_shared" where
  "smem_alloc2 P shared ident size_in =
     (if initialized (heap_info shared) = 0 then (NULL, shared)
      else if ident \<ge> SMEM_NUM_ITEMS P then (NULL, shared)
      else
        (let sz = ALIGN size_in 8;
             toc = heap_toc shared;
             info = heap_info shared;
             i = unat ident
         in if allocated (toc ! i) \<noteq> 0 then
              (if sz \<noteq> size_entry (toc ! i) then (NULL, shared)
               else (MSM_SHARED_RAM_BASE P + offset (toc ! i), shared))
            else if ident > SMEM_FIXED_ITEM_LAST P then
              (if heap_remaining info \<ge> sz then
                 (let e = (toc ! i)\<lparr>offset := free_offset info, size_entry := sz,
                            allocated := 1\<rparr>;
                      info' = info\<lparr>free_offset := free_offset info + sz,
                                 heap_remaining := heap_remaining info - sz\<rparr>
                  in (MSM_SHARED_RAM_BASE P + offset e,
                      shared\<lparr>heap_info := info', heap_toc := toc[i := e]\<rparr>))
               else (NULL, shared))
            else (NULL, shared)))"

section \<open>Concrete regions, platform and heap states\<close>

text \<open>
  The two regions of the translation example, and a third whose virtual mapping lies in
  the last page below \<open>2 ^ 32\<close>.
\<close>

definition R1 :: smem_area where
  "R1 = \<lparr>phys_addr = 0x1000, size_area = 0x100, virt_addr = 0x9000\<rparr>"

definition R2 :: smem_area where
  "R2 = \<lparr>phys_addr = 0x2000, size_area = 0x200, virt_addr = 0xA000\<rparr>"

definition ex_high_area :: smem_area where
  "ex_high_area = \<lparr>phys_addr = 0x3000, size_area = 0x2000, virt_addr = 0xFFFFF000\<rparr>"

text \<open>An area of one page whose virtual mapping is the last page below \<open>2 ^ 32\<close>.\<close>

definition ex_top_area :: smem_area where
  "ex_top_area = \<lparr>phys_addr = 0x3000, size_area = 0x1000, virt_addr = 0xFFFFF000\<rparr>"

text \<open>
  A platform with a table of 16 items, the first nine of them fixed, and three states of
  its heap: \<open>ex_fresh\<close> with no item allocated and 0x100 bytes left, \<open>ex_claimed\<close>,
  which is \<open>ex_fresh\<close> after item 10 has been given 24 bytes, and \<open>ex_wrapping\<close>,
  whose cursor is 8 bytes below \<open>2 ^ 32\<close> while 16 bytes are said to remain.
\<close>

definition ex_platform :: platform where
  "ex_platform = \<lparr>MSM_SHARED_RAM_BASE = 0xFA300000, MSM_SHARED_RAM_SIZE = 0x100000,
     msm_shared_ram_phys = 0x100000, SMEM_NUM_ITEMS = 16, SMEM_FIXED_ITEM_LAST = 8,
     BASE_ADDR_MASK = 0xFFFFFFFC\<rparr>"

definition ex_free_slot :: smem_heap_entry where
  "ex_free_slot = \<lparr>allocated = 0, offset = 0, size_entry = 0, reserved = 0\<rparr>"

definition ex_fresh :: smem_shared where
  "ex_fresh = \<lparr>heap_info = \<lparr>initialized = 1, free_offset = 0x2000, heap_remaining = 0x100\<rparr>,
     heap_toc = replicate 16 ex_free_slot\<rparr>"

definition ex_claimed :: smem_shared where
  "ex_claimed = \<lparr>heap_info = \<lparr>initialized = 1, free_offset = 0x2018, heap_remaining = 0xE8\<rparr>,
     heap_toc = (replicate 16 ex_free_slot)
       [10 := \<lparr>allocated = 1, offset = 0x2000, size_entry = 24, reserved = 0\<rparr>]\<rparr>"

definition ex_wrapping :: smem_shared where
  "ex_wrapping = \<lparr>heap_info = \<lparr>initialized = 1, free_offset = 0xFFFFFFF8, heap_remaining = 0x10\<rparr>,
     heap_toc = replicate 16 ex_free_slot\<rparr>"

text \<open>\<open>ex_fresh\<close> after item 10 has been given no bytes at all.\<close>

definition ex_claimed_empty :: smem_shared where
  "ex_claimed_empty = \<lparr>heap_info = \<lparr>initialized = 1, free_offset = 0x2000, heap_remaining = 0x100\<rparr>,
     heap_toc = (replicate 16 ex_free_slot)
       [10 := \<lparr>allocated = 1, offset = 0x2000, size_entry = 0, reserved = 0\<rparr>]\<rparr>"

lemmas ex_defs = ex_platform_def ex_free_slot_def ex_fresh_def ex_claimed_def ex_wrapping_def
  R1_def R2_def ex_high_area_def

section \<open>Overflow test\<close>

lemma OVERFLOW_ADD_UNSIGNED_iff:
  "OVERFLOW_ADD_UNSIGNED a b \<longleftrightarrow> 2 ^ 32 \<le> unat a + unat b"
proof -
  have "unat (- 1 :: u32) = 4294967295"
    by (simp add: unsigned_minus_1_eq_mask mask_eq_exp_minus_1)
  then have "unat (NOT 0 - a) = 2 ^ 32 - 1 - unat a"
    by (simp add: unat_sub)
  moreover have "unat a < 2 ^ 32"
    using unsigned_less [of a] by simp
  ultimately show ?thesis
    by (simp add: OVERFLOW_ADD_UNSIGNED_def word_less_nat_alt) arith
qed

lemma no_overflow_unat_add:
  "\<not> OVERFLOW_ADD_UNSIGNED a b \<Longrightarrow> unat (a + b) = unat a + unat b"
  by (simp add: OVERFLOW_ADD_UNSIGNED_iff unat_add_lem [THEN iffD1])

lemma ALIGN_8_values:
  "ALIGN 0 8 = 0" "ALIGN 1 8 = 8" "ALIGN 8 8 = 8" "ALIGN 9 8 = 16"
  by (simp_all add: ALIGN_def)

text \<open>
  \<open>ALIGN x 8\<close> against rounding up in the natural numbers: the two agree up to
  0xFFFFFFF8, and for the seven sizes above, whose rounded value is \<open>2 ^ 32\<close>, the
  32-bit addition wraps and \<open>ALIGN\<close> gives 0.
\<close>

lemma and_not_7:
  fixes w :: u32
  shows "w AND NOT 7 = w - take_bit 3 w"
proof -
  have "push_bit 3 (drop_bit 3 w) = w AND NOT (mask 3)"
    by (rule bit_eqI) (auto simp: bit_simps)
  moreover have "push_bit 3 (drop_bit 3 w) + take_bit 3 w = w"
    by (rule bits_ident)
  moreover have "(7 :: u32) = mask 3"
    by (simp add: mask_eq_exp_minus_1)
  ultimately show ?thesis
    by (metis add_diff_cancel_right')
qed

lemma unat_and_not_7:
  fixes w :: u32
  shows "unat (w AND NOT 7) = (unat w div 8) * 8"
proof -
  have t: "unat (take_bit 3 w) = unat w mod 8"
    by (simp add: take_bit_eq_mod unat_mod)
  then have "take_bit 3 w \<le> w"
    by (simp add: word_le_nat_alt)
  then have "unat (w - take_bit 3 w) = unat w - unat w mod 8"
    by (simp only: unat_sub t)
  also have "\<dots> = (unat w div 8) * 8"
    by (simp add: minus_mod_eq_div_mult)
  finally show ?thesis
    by (simp only: and_not_7)
qed

lemma unat_ALIGN_8: "unat (ALIGN x 8) = (unat (x + 7) div 8) * 8"
proof -
  have "ALIGN x 8 = (x + 7) AND NOT 7"
    by (simp add: ALIGN_def)
  then show ?thesis
    by (simp only: unat_and_not_7)
qed

lemma ALIGN_8_rounds_up:
  assumes "unat x \<le> 0xFFFFFFF8"
  shows "unat (ALIGN x 8) = ((unat x + 7) div 8) * 8"
proof -
  from assms have "unat x + unat (7 :: u32) < 2 ^ 32"
    by simp
  then have "unat (x + 7) = unat x + 7"
    by (simp add: unat_add_lem [THEN iffD1])
  then show ?thesis
    by (simp only: unat_ALIGN_8)
qed

lemma ALIGN_8_wraps:
  assumes "0xFFFFFFF8 < unat x"
  shows "ALIGN x 8 = 0"
proof -
  have lt: "unat x < 4294967296"
    using unsigned_less [of x] by simp
  have "unat (x + 7) = (unat x + 7) mod 4294967296"
    by (simp add: unat_word_ariths)
  also have "\<dots> = (unat x + 7 - 4294967296) mod 4294967296"
    using assms by (simp add: le_mod_geq)
  also have "\<dots> < 8"
    using assms lt by simp
  finally have "unat (x + 7) div 8 = 0"
    by simp
  then have "unat (ALIGN x 8) = 0"
    by (simp only: unat_ALIGN_8)
  then show ?thesis
    by (simp add: unat_eq_0)
qed

section \<open>Translating inside the first of two regions\<close>

text \<open>
  C1. With the registry holding R1 (physical [0x1000,0x1100) at virtual 0x9000) and R2
  (physical [0x2000,0x2200) at virtual 0xA000), \<open>smem_phys_to_virt\<close> called with base
  0x1050 and offset 0x10 returns 0x9010, the virtual base of R1 plus the offset: the
  distance of the base from the start of R1 is not added. Called with base 0x1050 and
  offset 0x200 it returns \<open>NULL\<close>. In the other direction \<open>smem_virt_to_phys\<close> takes
  0x9060 to the physical address 0x1060, and 0x9010 to 0x1010.
\<close>

theorem smem_phys_to_virt_two_regions:
  "smem_phys_to_virt P (Some [R1, R2]) 0x1050 0x10 = 0x9010
   \<and> smem_phys_to_virt P (Some [R1, R2]) 0x1050 0x10 \<noteq> 0x9060
   \<and> smem_phys_to_virt P (Some [R1, R2]) 0x1050 0x200 = NULL
   \<and> smem_virt_to_phys (Some [R1, R2]) 0x9060 = 0x1050 + 0x10
   \<and> smem_virt_to_phys (Some [R1, R2]) 0x9010 = 0x1010"
  by (simp add: smem_phys_to_virt_def smem_virt_to_phys_def OVERFLOW_ADD_UNSIGNED_def
      R1_def R2_def)

section \<open>Translation never returns a wrapped address\<close>

lemma smem_phys_to_virt_areas_skip:
  "\<forall>b\<in>set pre. base < phys_addr b \<or> base + offs \<ge> phys_addr b + size_area b \<Longrightarrow>
   smem_phys_to_virt_areas (pre @ rest) base offs = smem_phys_to_virt_areas rest base offs"
  by (induction pre) simp_all

lemma smem_phys_to_virt_areas_exact:
  "smem_phys_to_virt_areas areas base offs \<noteq> NULL \<Longrightarrow>
   \<exists>a\<in>set areas. unat (smem_phys_to_virt_areas areas base offs) = unat (virt_addr a) + unat offs"
proof (induction areas)
  case Nil
  then show ?case by simp
next
  case (Cons a areas)
  show ?case
  proof (cases "base < phys_addr a \<or> base + offs \<ge> phys_addr a + size_area a")
    case True
    with Cons show ?thesis by auto
  next
    case False
    with Cons.prems have "\<not> OVERFLOW_ADD_UNSIGNED (virt_addr a) offs"
      by (auto split: if_splits)
    with False show ?thesis
      by (simp add: no_overflow_unat_add)
  qed
qed

text \<open>
  C5. \<open>smem_phys_to_virt\<close> returns \<open>NULL\<close> whenever base plus offset does not fit in
  32 bits. It returns \<open>NULL\<close> whenever the offset added to the virtual base it would
  use does not fit: \<^verbatim>\<open>MSM_SHARED_RAM_BASE\<close> before the areas are configured, afterwards
  the virtual base of the first area of the scan that holds the span. A result other than
  \<open>NULL\<close> is, as a number, such a virtual base plus the offset, and base plus offset
  fits: nothing in it has wrapped.
\<close>

theorem smem_phys_to_virt_never_wraps:
  "(2 ^ 32 \<le> unat base + unat offs \<longrightarrow> smem_phys_to_virt P smem_areas base offs = NULL)
   \<and> (smem_areas = None \<and> 2 ^ 32 \<le> unat (MSM_SHARED_RAM_BASE P) + unat offs
        \<longrightarrow> smem_phys_to_virt P smem_areas base offs = NULL)
   \<and> (smem_areas = Some (pre @ a # post)
        \<and> (\<forall>b\<in>set pre. base < phys_addr b \<or> base + offs \<ge> phys_addr b + size_area b)
        \<and> \<not> (base < phys_addr a \<or> base + offs \<ge> phys_addr a + size_area a)
        \<and> 2 ^ 32 \<le> unat (virt_addr a) + unat offs
        \<longrightarrow> smem_phys_to_virt P smem_areas base offs = NULL)
   \<and> (smem_phys_to_virt P smem_areas base offs \<noteq> NULL
        \<longrightarrow> unat base + unat offs < 2 ^ 32
          \<and> (\<exists>v. (case smem_areas of None \<Rightarrow> v = MSM_SHARED_RAM_BASE P
                                  | Some areas \<Rightarrow> v \<in> virt_addr ` set areas)
                \<and> unat (smem_phys_to_virt P smem_areas base offs) = unat v + unat offs))"
proof -
  have phys: "2 ^ 32 \<le> unat base + unat offs \<longrightarrow> smem_phys_to_virt P smem_areas base offs = NULL"
    by (simp add: smem_phys_to_virt_def OVERFLOW_ADD_UNSIGNED_iff)
  have early: "smem_areas = None \<and> 2 ^ 32 \<le> unat (MSM_SHARED_RAM_BASE P) + unat offs
      \<longrightarrow> smem_phys_to_virt P smem_areas base offs = NULL"
    by (simp add: smem_phys_to_virt_def OVERFLOW_ADD_UNSIGNED_iff)
  have matched: "smem_areas = Some (pre @ a # post)
      \<and> (\<forall>b\<in>set pre. base < phys_addr b \<or> base + offs \<ge> phys_addr b + size_area b)
      \<and> \<not> (base < phys_addr a \<or> base + offs \<ge> phys_addr a + size_area a)
      \<and> 2 ^ 32 \<le> unat (virt_addr a) + unat offs
      \<longrightarrow> smem_phys_to_virt P smem_areas base offs = NULL"
    by (simp add: smem_phys_to_virt_def smem_phys_to_virt_areas_skip OVERFLOW_ADD_UNSIGNED_iff)
  have exact: "smem_phys_to_virt P smem_areas base offs \<noteq> NULL
      \<longrightarrow> unat base + unat offs < 2 ^ 32
        \<and> (\<exists>v. (case smem_areas of None \<Rightarrow> v = MSM_SHARED_RAM_BASE P
                                | Some areas \<Rightarrow> v \<in> virt_addr ` set areas)
              \<and> unat (smem_phys_to_virt P smem_areas base offs) = unat v + unat offs)"
  proof
    assume nz: "smem_phys_to_virt P smem_areas base offs \<noteq> NULL"
    then have nov: "\<not> OVERFLOW_ADD_UNSIGNED base offs"
      by (auto simp: smem_phys_to_virt_def)
    then have fits: "unat base + unat offs < 2 ^ 32"
      by (simp add: OVERFLOW_ADD_UNSIGNED_iff)
    have "\<exists>v. (case smem_areas of None \<Rightarrow> v = MSM_SHARED_RAM_BASE P
                                | Some areas \<Rightarrow> v \<in> virt_addr ` set areas)
              \<and> unat (smem_phys_to_virt P smem_areas base offs) = unat v + unat offs"
    proof (cases smem_areas)
      case None
      with nz nov have "\<not> OVERFLOW_ADD_UNSIGNED (MSM_SHARED_RAM_BASE P) offs"
        and "smem_phys_to_virt P smem_areas base offs = MSM_SHARED_RAM_BASE P + offs"
        by (auto simp: smem_phys_to_virt_def split: if_splits)
      with None show ?thesis
        by (simp add: no_overflow_unat_add)
    next
      case (Some areas)
      with nz nov have "smem_phys_to_virt P smem_areas base offs
          = smem_phys_to_virt_areas areas base offs"
        by (simp add: smem_phys_to_virt_def)
      with nz smem_phys_to_virt_areas_exact [of areas base offs] Some show ?thesis
        by auto
    qed
    with fits show "unat base + unat offs < 2 ^ 32
        \<and> (\<exists>v. (case smem_areas of None \<Rightarrow> v = MSM_SHARED_RAM_BASE P
                                | Some areas \<Rightarrow> v \<in> virt_addr ` set areas)
              \<and> unat (smem_phys_to_virt P smem_areas base offs) = unat v + unat offs)"
      by simp
  qed
  from phys early matched exact show ?thesis
    by (intro conjI)
qed

text \<open>
  The four parts at concrete inputs: a base 16 bytes below \<open>2 ^ 32\<close> with offset 0x20;
  early boot with an offset that carries \<^verbatim>\<open>MSM_SHARED_RAM_BASE\<close> past \<open>2 ^ 32\<close>; a span
  inside \<open>ex_high_area\<close>, scanned after R1 and R2, whose offset carries the virtual base
  past \<open>2 ^ 32\<close>; and a span at the start of R1, translated to 0x9010.
\<close>

theorem smem_phys_to_virt_never_wraps_witness:
  "2 ^ 32 \<le> unat (0xFFFFFFF0 :: u32) + unat (0x20 :: u32)
   \<and> smem_phys_to_virt ex_platform (Some [R1, R2]) 0xFFFFFFF0 0x20 = NULL
   \<and> 2 ^ 32 \<le> unat (MSM_SHARED_RAM_BASE ex_platform) + unat (0x6000000 :: u32)
   \<and> smem_phys_to_virt ex_platform None 0x100000 0x6000000 = NULL
   \<and> (0x3000 < phys_addr R1 \<or> phys_addr R1 + size_area R1 \<le> 0x3000 + 0x1800)
   \<and> (0x3000 < phys_addr R2 \<or> phys_addr R2 + size_area R2 \<le> 0x3000 + 0x1800)
   \<and> phys_addr ex_high_area \<le> 0x3000
   \<and> 0x3000 + 0x1800 < phys_addr ex_high_area + size_area ex_high_area
   \<and> 2 ^ 32 \<le> unat (virt_addr ex_high_area) + unat (0x1800 :: u32)
   \<and> smem_phys_to_virt ex_platform (Some [R1, R2, ex_high_area]) 0x3000 0x1800 = NULL
   \<and> smem_phys_to_virt ex_platform (Some [R1, R2]) 0x1000 0x10 = 0x9010
   \<and> unat (0x1000 :: u32) + unat (0x10 :: u32) < 2 ^ 32"
proof -
  have a: "smem_phys_to_virt ex_platform (Some [R1, R2]) 0xFFFFFFF0 0x20 = NULL"
    using smem_phys_to_virt_never_wraps
      [where base = "0xFFFFFFF0" and offs = "0x20" and P = ex_platform
         and smem_areas = "Some [R1, R2]"]
    by simp
  have b: "smem_phys_to_virt ex_platform None 0x100000 0x6000000 = NULL"
    using smem_phys_to_virt_never_wraps
      [where base = "0x100000" and offs = "0x6000000" and P = ex_platform
         and smem_areas = None]
    by (simp add: ex_platform_def)
  have c: "smem_phys_to_virt ex_platform (Some [R1, R2, ex_high_area]) 0x3000 0x1800 = NULL"
    using smem_phys_to_virt_never_wraps
      [where base = "0x3000" and offs = "0x1800" and P = ex_platform
         and smem_areas = "Some [R1, R2, ex_high_area]"
         and pre = "[R1, R2]" and a = ex_high_area and post = "[]"]
    by (simp add: R1_def R2_def ex_high_area_def)
  have d: "smem_phys_to_virt ex_platform (Some [R1, R2]) 0x1000 0x10 = 0x9010"
    by (simp add: smem_phys_to_virt_def OVERFLOW_ADD_UNSIGNED_def R1_def R2_def)
  from a b c d show ?thesis
    by (simp add: ex_defs)
qed

section \<open>From a virtual address back to the physical one\<close>

lemma vspan_test:
  fixes virt addr sz :: u32
  shows "(virt \<le> addr \<and> addr < virt + sz)
     \<longleftrightarrow> (unat virt \<le> unat addr \<and> unat addr < unat virt + unat sz
          \<and> unat virt + unat sz < 2 ^ 32)"
proof
  assume h: "virt \<le> addr \<and> addr < virt + sz"
  then have "virt \<le> virt + sz"
    by auto
  then have "unat (virt + sz) = unat virt + unat sz"
    by (simp add: unat_plus_simple)
  moreover have "unat (virt + sz) < 2 ^ 32"
    using unsigned_less [of "virt + sz"] by simp
  ultimately show "unat virt \<le> unat addr \<and> unat addr < unat virt + unat sz
      \<and> unat virt + unat sz < 2 ^ 32"
    using h by (simp add: word_le_nat_alt word_less_nat_alt)
next
  assume h: "unat virt \<le> unat addr \<and> unat addr < unat virt + unat sz
      \<and> unat virt + unat sz < 2 ^ 32"
  then have "unat (virt + sz) = unat virt + unat sz"
    by (simp add: unat_add_lem [THEN iffD1])
  with h show "virt \<le> addr \<and> addr < virt + sz"
    by (simp add: word_le_nat_alt word_less_nat_alt)
qed

lemma smem_virt_to_phys_areas_skip:
  "\<forall>b\<in>set pre. \<not> (unat (virt_addr b) \<le> unat addr
        \<and> unat addr < unat (virt_addr b) + unat (size_area b)) \<Longrightarrow>
   smem_virt_to_phys_areas (pre @ rest) addr = smem_virt_to_phys_areas rest addr"
  by (induction pre) (auto simp: Let_def vspan_test)

text \<open>
  The virtual span of an area is the set of addresses from \<open>virt_addr\<close> up to, not
  including, \<open>virt_addr + size\<close>, as numbers. \<open>smem_virt_to_phys\<close> returns 0 when no
  areas are configured, and 0 for an address that lies in the span of none of the areas.
  For an address in the span of an area, reached by the scan before any other area that
  holds the address and with a span that ends below \<open>2 ^ 32\<close>, it returns the physical
  base of that area plus the distance of the address from the virtual base.
\<close>

lemma smem_virt_to_phys_sentinel:
  "smem_virt_to_phys None addr = 0
   \<and> ((\<forall>a\<in>set areas. \<not> (unat (virt_addr a) \<le> unat addr
            \<and> unat addr < unat (virt_addr a) + unat (size_area a)))
        \<longrightarrow> smem_virt_to_phys (Some areas) addr = 0)
   \<and> ((\<forall>b\<in>set pre. \<not> (unat (virt_addr b) \<le> unat addr
            \<and> unat addr < unat (virt_addr b) + unat (size_area b)))
        \<and> unat (virt_addr a) \<le> unat addr
        \<and> unat addr < unat (virt_addr a) + unat (size_area a)
        \<and> unat (virt_addr a) + unat (size_area a) < 2 ^ 32
        \<longrightarrow> smem_virt_to_phys (Some (pre @ a # post)) addr
              = phys_addr a + (addr - virt_addr a))"
proof -
  have early: "smem_virt_to_phys None addr = 0"
    by (simp add: smem_virt_to_phys_def)
  have nomatch: "(\<forall>a\<in>set areas. \<not> (unat (virt_addr a) \<le> unat addr
            \<and> unat addr < unat (virt_addr a) + unat (size_area a)))
        \<longrightarrow> smem_virt_to_phys (Some areas) addr = 0"
    using smem_virt_to_phys_areas_skip [of areas addr "[]"]
    by (simp add: smem_virt_to_phys_def)
  have match: "(\<forall>b\<in>set pre. \<not> (unat (virt_addr b) \<le> unat addr
            \<and> unat addr < unat (virt_addr b) + unat (size_area b)))
        \<and> unat (virt_addr a) \<le> unat addr
        \<and> unat addr < unat (virt_addr a) + unat (size_area a)
        \<and> unat (virt_addr a) + unat (size_area a) < 2 ^ 32
        \<longrightarrow> smem_virt_to_phys (Some (pre @ a # post)) addr
              = phys_addr a + (addr - virt_addr a)"
    by (simp add: smem_virt_to_phys_def smem_virt_to_phys_areas_skip Let_def vspan_test)
  from early nomatch match show ?thesis
    by (intro conjI)
qed

text \<open>
  C9. With \<open>ex_top_area\<close> configured, whose virtual span is the last page below
  \<open>2 ^ 32\<close>, \<open>smem_phys_to_virt\<close> translates physical 0x3000 with offset 0x800 to
  0xFFFFF800. That address lies in the virtual span of the area, 0x800 above its virtual
  base, so its physical address is 0x3800. \<open>smem_virt_to_phys\<close> returns 0 for it: the
  end of the span, \<^verbatim>\<open>virt_addr + size\<close>, has wrapped to 0 and no address is below it.
\<close>

theorem smem_virt_to_phys_top_area:
  "smem_phys_to_virt ex_platform (Some [ex_top_area]) 0x3000 0x800 = 0xFFFFF800
   \<and> unat (virt_addr ex_top_area) \<le> unat (0xFFFFF800 :: u32)
   \<and> unat (0xFFFFF800 :: u32) < unat (virt_addr ex_top_area) + unat (size_area ex_top_area)
   \<and> phys_addr ex_top_area + (0xFFFFF800 - virt_addr ex_top_area) = 0x3800
   \<and> virt_addr ex_top_area + size_area ex_top_area = 0
   \<and> smem_virt_to_phys (Some [ex_top_area]) 0xFFFFF800 = 0"
  by (simp add: smem_phys_to_virt_def smem_virt_to_phys_def OVERFLOW_ADD_UNSIGNED_def
      ex_top_area_def Let_def)

section \<open>Lookup\<close>

text \<open>
  The cell behind the \<^verbatim>\<open>size\<close> pointer of \<^verbatim>\<open>smem_get_entry\<close>: whenever the pointer
  returned is not \<open>NULL\<close> the cell holds the slot's size, whatever it held before, and
  the pointer never depends on what the cell held.
\<close>

lemma smem_get_entry_cell:
  "fst (smem_get_entry P smem_areas shared ident sz)
     = fst (smem_get_entry P smem_areas shared ident sz')
   \<and> (fst (smem_get_entry P smem_areas shared ident sz) \<noteq> NULL
        \<longrightarrow> fst (snd (smem_get_entry P smem_areas shared ident sz))
              = size_entry (heap_toc shared ! unat ident))"
  by (simp add: smem_get_entry_def Let_def)

text \<open>
  C7. For an identifier below \<^verbatim>\<open>SMEM_NUM_ITEMS\<close> whose slot has the allocated flag
  clear, \<open>smem_find\<close> returns \<open>NULL\<close> for every size, and \<open>smem_get_entry\<close> returns
  \<open>NULL\<close> and stores 0 through its size pointer, whatever the cell held. Neither changes
  the shared structure.
\<close>

theorem smem_find_unallocated:
  assumes "ident < SMEM_NUM_ITEMS P"
    and "allocated (heap_toc shared ! unat ident) = 0"
  shows "smem_find P smem_areas shared ident size_in = (NULL, shared)
    \<and> smem_get_entry P smem_areas shared ident sz = (NULL, 0, shared)"
  using assms
  by (simp add: smem_find_def smem_get_entry_def Let_def linorder_not_le [symmetric])

theorem smem_find_unallocated_witness:
  "(10 :: u32) < SMEM_NUM_ITEMS ex_platform
   \<and> allocated (heap_toc ex_fresh ! unat (10 :: u32)) = 0
   \<and> smem_find ex_platform (Some [R1, R2]) ex_fresh 10 24 = (NULL, ex_fresh)
   \<and> smem_get_entry ex_platform (Some [R1, R2]) ex_fresh 10 77 = (NULL, 0, ex_fresh)"
proof -
  have a: "(10 :: u32) < SMEM_NUM_ITEMS ex_platform"
    by (simp add: ex_platform_def)
  have b: "allocated (heap_toc ex_fresh ! unat (10 :: u32)) = 0"
    by (simp add: ex_fresh_def ex_free_slot_def)
  from a b smem_find_unallocated [OF a b, of "Some [R1, R2]" 24 77] show ?thesis
    by simp
qed

text \<open>
  C10. \<open>smem_alloc\<close> returns what \<open>smem_find\<close> returns, for every identifier and
  size, and leaves the shared structure as it found it.
\<close>

theorem smem_alloc_is_smem_find:
  "smem_alloc P smem_areas shared ident size_in = smem_find P smem_areas shared ident size_in
   \<and> snd (smem_alloc P smem_areas shared ident size_in) = shared"
  by (simp add: smem_alloc_def smem_find_def smem_get_entry_def Let_def)

section \<open>Allocation\<close>

text \<open>
  What a call of \<open>smem_alloc2\<close> that returned a pointer leaves behind: the slot is
  allocated with the aligned size, and the pointer is its offset from
  \<^verbatim>\<open>MSM_SHARED_RAM_BASE\<close>.
\<close>

lemma smem_alloc2_again:
  assumes sized: "toc_sized P shared"
    and call: "smem_alloc2 P shared ident size_in = (p, shared')"
    and ok: "p \<noteq> NULL"
  shows "initialized (heap_info shared') \<noteq> 0 \<and> ident < SMEM_NUM_ITEMS P
    \<and> allocated (heap_toc shared' ! unat ident) \<noteq> 0
    \<and> size_entry (heap_toc shared' ! unat ident) = ALIGN size_in 8
    \<and> p = MSM_SHARED_RAM_BASE P + offset (heap_toc shared' ! unat ident)"
proof -
  from call ok have init: "initialized (heap_info shared) \<noteq> 0"
    by (auto simp: smem_alloc2_def)
  from call ok init have rng: "ident < SMEM_NUM_ITEMS P"
    by (auto simp: smem_alloc2_def split: if_splits)
  with sized have len: "unat ident < length (heap_toc shared)"
    by (simp add: toc_sized_def word_less_nat_alt)
  show ?thesis
  proof (cases "allocated (heap_toc shared ! unat ident) \<noteq> 0")
    case True
    with call ok init rng show ?thesis
      by (auto simp: smem_alloc2_def Let_def split: if_splits)
  next
    case False
    with call ok init rng len show ?thesis
      by (auto simp: smem_alloc2_def Let_def split: if_splits)
  qed
qed

lemma ex_fresh_sized: "toc_sized ex_platform ex_fresh"
  by (simp add: toc_sized_def ex_platform_def ex_fresh_def)

lemma ex_fresh_alloc2: "smem_alloc2 ex_platform ex_fresh 10 20 = (0xFA302000, ex_claimed)"
  by (simp add: smem_alloc2_def ALIGN_def Let_def ex_platform_def ex_fresh_def ex_claimed_def
      ex_free_slot_def)

text \<open>
  C2. Let the table have its \<^verbatim>\<open>SMEM_NUM_ITEMS\<close> slots. If \<open>smem_alloc2\<close> returns a
  pointer other than \<open>NULL\<close>, the same call made again on the structure it left returns
  the same pointer and leaves the whole structure, so \<open>free_offset\<close> and
  \<open>heap_remaining\<close> too, as it is.
\<close>

theorem smem_alloc2_idempotent:
  assumes "toc_sized P shared"
    and "smem_alloc2 P shared ident size_in = (p, shared')"
    and "p \<noteq> NULL"
  shows "smem_alloc2 P shared' ident size_in = (p, shared')"
  using smem_alloc2_again [OF assms]
  by (simp add: smem_alloc2_def Let_def linorder_not_le [symmetric])

theorem smem_alloc2_idempotent_witness:
  "toc_sized ex_platform ex_fresh
   \<and> smem_alloc2 ex_platform ex_fresh 10 20 = (0xFA302000, ex_claimed)
   \<and> (0xFA302000 :: ptr) \<noteq> NULL
   \<and> smem_alloc2 ex_platform ex_claimed 10 20 = (0xFA302000, ex_claimed)"
proof -
  have nz: "(0xFA302000 :: ptr) \<noteq> NULL"
    by simp
  from ex_fresh_sized ex_fresh_alloc2 nz
    smem_alloc2_idempotent [OF ex_fresh_sized ex_fresh_alloc2 nz]
  show ?thesis
    by simp
qed

text \<open>
  Let the table have its \<^verbatim>\<open>SMEM_NUM_ITEMS\<close> slots. After a call of \<open>smem_alloc2\<close>
  with \<open>size1\<close> that returned a pointer other than \<open>NULL\<close>, a call for the same
  identifier with a \<open>size2\<close> for which \<open>ALIGN\<close> computes another value than for
  \<open>size1\<close> returns \<open>NULL\<close> and leaves the whole structure, so the offset and the size
  of the slot too, as it is.
\<close>

lemma smem_alloc2_size_mismatch:
  assumes "toc_sized P shared"
    and "smem_alloc2 P shared ident size1 = (p, shared')"
    and "p \<noteq> NULL"
    and "ALIGN size1 8 \<noteq> ALIGN size2 8"
  shows "smem_alloc2 P shared' ident size2 = (NULL, shared')"
  using smem_alloc2_again [OF assms(1-3)] assms(4)
  by (simp add: smem_alloc2_def Let_def linorder_not_le [symmetric])

text \<open>
  C4. Item 10 of \<open>ex_fresh\<close> is allocated with size 0, which gives the pointer
  0xFA302000. Rounded up to a multiple of 8, size 0 is 0 and size 0xFFFFFFFF is
  \<open>2 ^ 32\<close>, yet a second call for item 10 with size 0xFFFFFFFF returns the same pointer
  instead of \<open>NULL\<close>: \<open>ALIGN\<close> has wrapped to 0, the size stored in the slot.
\<close>

theorem smem_alloc2_wrapped_size_matches:
  "toc_sized ex_platform ex_fresh
   \<and> smem_alloc2 ex_platform ex_fresh 10 0 = (0xFA302000, ex_claimed_empty)
   \<and> (0xFA302000 :: ptr) \<noteq> NULL
   \<and> ((unat (0 :: u32) + 7) div 8) * 8 = 0
   \<and> ((unat (0xFFFFFFFF :: u32) + 7) div 8) * 8 = 2 ^ 32
   \<and> ALIGN 0 8 = 0 \<and> ALIGN 0xFFFFFFFF 8 = 0
   \<and> smem_alloc2 ex_platform ex_claimed_empty 10 0xFFFFFFFF = (0xFA302000, ex_claimed_empty)"
proof -
  have "ALIGN 0xFFFFFFFF 8 = 0"
    by (rule ALIGN_8_wraps) simp
  moreover have "ALIGN 0 8 = 0"
    by (simp add: ALIGN_def)
  ultimately show ?thesis
    by (simp add: smem_alloc2_def Let_def toc_sized_def ex_platform_def ex_fresh_def
        ex_claimed_empty_def ex_free_slot_def)
qed

text \<open>
  For an identifier above \<^verbatim>\<open>SMEM_FIXED_ITEM_LAST\<close> and below \<^verbatim>\<open>SMEM_NUM_ITEMS\<close>
  whose slot has the allocated flag clear, a call of \<open>smem_alloc2\<close> for which \<open>ALIGN\<close>
  computes more than \<open>heap_remaining\<close> returns \<open>NULL\<close> and leaves the whole structure
  as it is.
\<close>

lemma smem_alloc2_out_of_memory:
  assumes "ident < SMEM_NUM_ITEMS P"
    and "allocated (heap_toc shared ! unat ident) = 0"
    and "ident > SMEM_FIXED_ITEM_LAST P"
    and "heap_remaining (heap_info shared) < ALIGN size_in 8"
  shows "smem_alloc2 P shared ident size_in = (NULL, shared)"
  using assms
  by (simp add: smem_alloc2_def Let_def linorder_not_le [symmetric])

text \<open>
  C3. Item 10 of \<open>ex_fresh\<close> is above the fixed range and not allocated, and 0x100
  bytes remain. A call of \<open>smem_alloc2\<close> for item 10 with size 0xFFFFFFFF, which rounded
  up to a multiple of 8 is \<open>2 ^ 32\<close>, returns the pointer 0xFA302000 instead of
  \<open>NULL\<close> and marks the slot allocated with size 0: \<open>ALIGN\<close> has wrapped to 0, which
  passes the test against \<open>heap_remaining\<close>.
\<close>

theorem smem_alloc2_wrapped_size_allocates:
  "(10 :: u32) < SMEM_NUM_ITEMS ex_platform
   \<and> SMEM_FIXED_ITEM_LAST ex_platform < 10
   \<and> allocated (heap_toc ex_fresh ! unat (10 :: u32)) = 0
   \<and> heap_remaining (heap_info ex_fresh) = 0x100
   \<and> unat (heap_remaining (heap_info ex_fresh)) < ((unat (0xFFFFFFFF :: u32) + 7) div 8) * 8
   \<and> ALIGN 0xFFFFFFFF 8 = 0
   \<and> smem_alloc2 ex_platform ex_fresh 10 0xFFFFFFFF = (0xFA302000, ex_claimed_empty)
   \<and> allocated (heap_toc ex_claimed_empty ! unat (10 :: u32)) = 1
   \<and> size_entry (heap_toc ex_claimed_empty ! unat (10 :: u32)) = 0"
proof -
  have "ALIGN 0xFFFFFFFF 8 = 0"
    by (rule ALIGN_8_wraps) simp
  then show ?thesis
    by (simp add: smem_alloc2_def Let_def ex_platform_def ex_fresh_def ex_claimed_empty_def
        ex_free_slot_def)
qed

text \<open>
  C8. For an identifier up to \<^verbatim>\<open>SMEM_FIXED_ITEM_LAST\<close> whose slot has the allocated
  flag clear, \<open>smem_alloc2\<close> returns \<open>NULL\<close> for every size and leaves the whole
  structure, so the flag, the slot and the heap header, as it is.
\<close>

theorem smem_alloc2_fixed_refused:
  assumes "ident \<le> SMEM_FIXED_ITEM_LAST P"
    and "allocated (heap_toc shared ! unat ident) = 0"
  shows "smem_alloc2 P shared ident size_in = (NULL, shared)"
  using assms
  by (simp add: smem_alloc2_def Let_def linorder_not_le [symmetric])

theorem smem_alloc2_fixed_refused_witness:
  "(3 :: u32) \<le> SMEM_FIXED_ITEM_LAST ex_platform
   \<and> allocated (heap_toc ex_fresh ! unat (3 :: u32)) = 0
   \<and> initialized (heap_info ex_fresh) \<noteq> 0
   \<and> ALIGN 20 8 \<le> heap_remaining (heap_info ex_fresh)
   \<and> smem_alloc2 ex_platform ex_fresh 3 20 = (NULL, ex_fresh)"
proof -
  have a: "(3 :: u32) \<le> SMEM_FIXED_ITEM_LAST ex_platform"
    by (simp add: ex_platform_def)
  have b: "allocated (heap_toc ex_fresh ! unat (3 :: u32)) = 0"
    by (simp add: ex_fresh_def ex_free_slot_def)
  have c: "initialized (heap_info ex_fresh) \<noteq> 0 \<and> ALIGN 20 8 \<le> heap_remaining (heap_info ex_fresh)"
    by (simp add: ex_fresh_def ALIGN_def)
  from a b c smem_alloc2_fixed_refused [OF a b, of 20] show ?thesis
    by simp
qed

section \<open>Accounting of the heap header\<close>

lemma smem_alloc2_heap_info:
  "snd (smem_alloc2 P shared ident size_in) = shared
   \<or> (ALIGN size_in 8 \<le> heap_remaining (heap_info shared)
      \<and> heap_info (snd (smem_alloc2 P shared ident size_in))
          = (heap_info shared)\<lparr>free_offset := free_offset (heap_info shared) + ALIGN size_in 8,
               heap_remaining := heap_remaining (heap_info shared) - ALIGN size_in 8\<rparr>)"
  by (simp add: smem_alloc2_def Let_def)

text \<open>
  C6. \<open>smem_find\<close> and \<open>smem_get_entry\<close> leave the shared structure as it is. After
  \<open>smem_alloc2\<close>, from any state and for any arguments, \<open>free_offset + heap_remaining\<close>
  in 32-bit arithmetic is what it was, and \<open>heap_remaining\<close> has not grown. When
  \<open>free_offset\<close> plus \<open>heap_remaining\<close> fits in 32 bits before the call,
  \<open>free_offset\<close> has not shrunk and the sum, as a number, is what it was, so it fits
  after the call too.
\<close>

theorem heap_accounting:
  "snd (smem_find P smem_areas shared ident size_in) = shared
   \<and> snd (snd (smem_get_entry P smem_areas shared ident sz)) = shared
   \<and> free_offset (heap_info (snd (smem_alloc2 P shared ident size_in)))
       + heap_remaining (heap_info (snd (smem_alloc2 P shared ident size_in)))
       = free_offset (heap_info shared) + heap_remaining (heap_info shared)
   \<and> heap_remaining (heap_info (snd (smem_alloc2 P shared ident size_in)))
       \<le> heap_remaining (heap_info shared)
   \<and> (unat (free_offset (heap_info shared)) + unat (heap_remaining (heap_info shared)) < 2 ^ 32
        \<longrightarrow> free_offset (heap_info shared)
              \<le> free_offset (heap_info (snd (smem_alloc2 P shared ident size_in)))
          \<and> unat (free_offset (heap_info (snd (smem_alloc2 P shared ident size_in))))
              + unat (heap_remaining (heap_info (snd (smem_alloc2 P shared ident size_in))))
              = unat (free_offset (heap_info shared)) + unat (heap_remaining (heap_info shared)))"
proof -
  have find: "snd (smem_find P smem_areas shared ident size_in) = shared"
    by (simp add: smem_find_def smem_get_entry_def Let_def)
  have entry: "snd (snd (smem_get_entry P smem_areas shared ident sz)) = shared"
    by (simp add: smem_get_entry_def Let_def)
  define f r where "f = free_offset (heap_info shared)" and "r = heap_remaining (heap_info shared)"
  define a where "a = ALIGN size_in 8"
  consider (same) "snd (smem_alloc2 P shared ident size_in) = shared"
    | (bump) "a \<le> r" "heap_info (snd (smem_alloc2 P shared ident size_in))
        = (heap_info shared)\<lparr>free_offset := f + a, heap_remaining := r - a\<rparr>"
    using smem_alloc2_heap_info [of P shared ident size_in]
    unfolding f_def r_def a_def by blast
  then have alloc: "free_offset (heap_info (snd (smem_alloc2 P shared ident size_in)))
       + heap_remaining (heap_info (snd (smem_alloc2 P shared ident size_in))) = f + r
   \<and> heap_remaining (heap_info (snd (smem_alloc2 P shared ident size_in))) \<le> r
   \<and> (unat f + unat r < 2 ^ 32
        \<longrightarrow> f \<le> free_offset (heap_info (snd (smem_alloc2 P shared ident size_in)))
          \<and> unat (free_offset (heap_info (snd (smem_alloc2 P shared ident size_in))))
              + unat (heap_remaining (heap_info (snd (smem_alloc2 P shared ident size_in))))
              = unat f + unat r)"
  proof cases
    case same
    then show ?thesis by (simp add: f_def r_def)
  next
    case bump
    have le: "unat a \<le> unat r"
      using bump(1) by (simp add: word_le_nat_alt)
    then have sub: "unat (r - a) = unat r - unat a"
      using bump(1) by (simp add: unat_sub)
    have rem: "r - a \<le> r"
      using sub by (simp add: word_le_nat_alt)
    have mono: "unat f + unat r < 2 ^ 32
      \<longrightarrow> f \<le> f + a \<and> unat (f + a) + unat (r - a) = unat f + unat r"
    proof
      assume "unat f + unat r < 2 ^ 32"
      with le have "unat f + unat a < 2 ^ 32" by simp
      then have "unat (f + a) = unat f + unat a"
        by (simp add: unat_add_lem [THEN iffD1])
      with sub le show "f \<le> f + a \<and> unat (f + a) + unat (r - a) = unat f + unat r"
        by (simp add: word_le_nat_alt)
    qed
    from bump(2) rem mono show ?thesis by simp
  qed
  from find entry alloc show ?thesis
    unfolding f_def r_def by (intro conjI) simp_all
qed

theorem heap_accounting_witness:
  "unat (free_offset (heap_info ex_fresh)) + unat (heap_remaining (heap_info ex_fresh)) < 2 ^ 32
   \<and> snd (smem_alloc2 ex_platform ex_fresh 10 20) = ex_claimed
   \<and> free_offset (heap_info ex_fresh) \<le> free_offset (heap_info ex_claimed)
   \<and> heap_remaining (heap_info ex_claimed) \<le> heap_remaining (heap_info ex_fresh)
   \<and> unat (free_offset (heap_info ex_claimed)) + unat (heap_remaining (heap_info ex_claimed))
       = unat (free_offset (heap_info ex_fresh)) + unat (heap_remaining (heap_info ex_fresh))"
proof -
  have a: "unat (free_offset (heap_info ex_fresh)) + unat (heap_remaining (heap_info ex_fresh))
      < 2 ^ 32"
    by (simp add: ex_fresh_def)
  from a ex_fresh_alloc2
    heap_accounting [of ex_platform "Some [R1, R2]" ex_fresh 10 20 0]
  show ?thesis
    by simp
qed

text \<open>
  From \<open>ex_wrapping\<close>, an initialised heap whose cursor stands 8 bytes below \<open>2 ^ 32\<close>
  with 16 bytes said to remain, allocating 16 bytes for item 10 succeeds and moves
  \<open>free_offset\<close> from 0xFFFFFFF8 down to 8.
\<close>

theorem free_offset_wraps:
  "initialized (heap_info ex_wrapping) \<noteq> 0
   \<and> fst (smem_alloc2 ex_platform ex_wrapping 10 16) \<noteq> NULL
   \<and> free_offset (heap_info ex_wrapping) = 0xFFFFFFF8
   \<and> free_offset (heap_info (snd (smem_alloc2 ex_platform ex_wrapping 10 16))) = 8
   \<and> free_offset (heap_info (snd (smem_alloc2 ex_platform ex_wrapping 10 16)))
       < free_offset (heap_info ex_wrapping)"
  by (simp add: smem_alloc2_def ex_platform_def ex_wrapping_def ex_free_slot_def ALIGN_def Let_def)

end
